theory Spec2Isabelle
  imports Complex_Main
begin

section \<open>The projection engine of \<^verbatim>\<open>investment_projection_app.py\<close>\<close>

text \<open>
  The engine is the function \<^verbatim>\<open>calculate_investment_projection\<close> (lines 6 to 57 of
  the source). Its numbers are IEEE doubles in the program; here they are real numbers,
  so every statement below is about the arithmetic the program writes down, without
  rounding. Integer arguments (the risk level, the horizon in years) are \<open>int\<close>.
  Arrays have no size limit and reals no largest value: an allocation too large for
  the machine and an integer amount too large for a double, which fail in the program,
  are outside the model.

  The program raises no exception of its own. The failures it can have are Python's:
  a dictionary lookup of a missing key (\<open>KeyError\<close>, line 18), the allocation of an
  array with a negative dimension (\<open>ValueError\<close>, line 29) and an index beyond an
  array (\<open>IndexError\<close>, line 54, only when there is no trajectory at all).
\<close>

datatype error = KeyError | ValueError | IndexError

subsection \<open>The risk table (lines 7 to 16)\<close>

record risk_profile =
  mean_return :: real
  volatility :: real

text \<open>The dictionary literal, entry by entry, in the order of the source.\<close>

definition risk_parameters :: "(int \<times> risk_profile) list" where
  "risk_parameters =
    [(1, \<lparr>mean_return = 4 / 100, volatility = 5 / 100\<rparr>),
     (2, \<lparr>mean_return = 5 / 100, volatility = 7 / 100\<rparr>),
     (3, \<lparr>mean_return = 6 / 100, volatility = 9 / 100\<rparr>),
     (4, \<lparr>mean_return = 7 / 100, volatility = 11 / 100\<rparr>),
     (5, \<lparr>mean_return = 8 / 100, volatility = 14 / 100\<rparr>),
     (6, \<lparr>mean_return = 10 / 100, volatility = 17 / 100\<rparr>),
     (7, \<lparr>mean_return = 12 / 100, volatility = 20 / 100\<rparr>),
     (8, \<lparr>mean_return = 14 / 100, volatility = 25 / 100\<rparr>)]"

text \<open>\<^verbatim>\<open>risk_parameters[risk_appetite]\<close>: the entry of the key, or \<open>KeyError\<close>.\<close>

definition risk_lookup :: "int \<Rightarrow> error + risk_profile" where
  "risk_lookup risk_appetite =
    (case map_of risk_parameters risk_appetite of
       None \<Rightarrow> Inl KeyError
     | Some params \<Rightarrow> Inr params)"

subsection \<open>The monthly parameters (lines 26 and 27)\<close>

definition monthly_return :: "real \<Rightarrow> real" where
  "monthly_return annual_return = (1 + annual_return) powr (1 / 12) - 1"

definition monthly_volatility :: "real \<Rightarrow> real" where
  "monthly_volatility annual_volatility = annual_volatility / sqrt 12"

subsection \<open>The source of randomness\<close>

text \<open>
  \<^verbatim>\<open>np.random.normal(loc, scale)\<close> reads and advances NumPy's global generator. The
  generator is an explicit state of any type \<open>'g\<close>, and the sampler is a parameter:
  given the mean, the standard deviation and the state, it returns the sample and the
  next state. Nothing is assumed about the samples.
\<close>

type_synonym 'g sampler = "real \<Rightarrow> real \<Rightarrow> 'g \<Rightarrow> real \<times> 'g"

text \<open>The generator after \<open>k\<close> draws, and the \<open>k\<close>-th sample (counted from 0).\<close>

fun gen_after :: "'g sampler \<Rightarrow> real \<Rightarrow> real \<Rightarrow> 'g \<Rightarrow> nat \<Rightarrow> 'g" where
  "gen_after normal mu sd g 0 = g"
| "gen_after normal mu sd g (Suc k) = snd (normal mu sd (gen_after normal mu sd g k))"

definition draw :: "'g sampler \<Rightarrow> real \<Rightarrow> real \<Rightarrow> 'g \<Rightarrow> nat \<Rightarrow> real" where
  "draw normal mu sd g k = fst (normal mu sd (gen_after normal mu sd g k))"

subsection \<open>The simulation loops (lines 29 to 41)\<close>

text \<open>
  A two-dimensional array is the list of its rows. \<^verbatim>\<open>np.zeros((n, months + 1))\<close> is
  \<open>n\<close> rows of \<open>months + 1\<close> zeros; an assignment \<^verbatim>\<open>a[i, j] = v\<close> is a list update.
\<close>

definition np_zeros :: "nat \<Rightarrow> nat \<Rightarrow> real list list" where
  "np_zeros rows cols = replicate rows (replicate cols 0)"

text \<open>
  The body of the inner loop (lines 37 to 41) for month \<open>j\<close>, on the row of values,
  the row of contributions and the generator.
\<close>

definition month_step ::
  "'g sampler \<Rightarrow> real \<Rightarrow> real \<Rightarrow> real \<Rightarrow> nat \<Rightarrow>
   real list \<times> real list \<times> 'g \<Rightarrow> real list \<times> real list \<times> 'g" where
  "month_step normal m_return m_volatility monthly_contribution j =
    (\<lambda>(sim, cum, g).
      let monthly_investment = monthly_contribution;
          (random_return, g') = normal m_return m_volatility g
      in (sim[j := sim ! (j - 1) * (1 + random_return) + monthly_investment],
          cum[j := cum ! (j - 1) + monthly_investment],
          g'))"

text \<open>
  The body of the outer loop (lines 33 to 41) for trajectory \<open>i\<close>: month 0 is set, then
  \<^verbatim>\<open>for j in range(1, months + 1)\<close> runs over row \<open>i\<close> of both arrays.
\<close>

definition trajectory_step ::
  "'g sampler \<Rightarrow> real \<Rightarrow> real \<Rightarrow> real \<Rightarrow> real \<Rightarrow> nat \<Rightarrow> nat \<Rightarrow>
   real list list \<times> real list list \<times> 'g \<Rightarrow> real list list \<times> real list list \<times> 'g" where
  "trajectory_step normal m_return m_volatility initial_amount monthly_contribution months i =
    (\<lambda>(simulations, cumulative_investment, g).
      let sim0 = (simulations ! i)[0 := initial_amount];
          cum0 = (cumulative_investment ! i)[0 := initial_amount];
          (sim, cum, g') =
            fold (month_step normal m_return m_volatility monthly_contribution)
              [1 ..< months + 1] (sim0, cum0, g)
      in (simulations[i := sim], cumulative_investment[i := cum], g'))"

text \<open>
  Lines 29 to 41 with the number of trajectories as a parameter: the two arrays are
  allocated and \<^verbatim>\<open>for i in range(num_simulations)\<close> fills them.
\<close>

definition simulate ::
  "nat \<Rightarrow> 'g sampler \<Rightarrow> real \<Rightarrow> real \<Rightarrow> real \<Rightarrow> real \<Rightarrow> nat \<Rightarrow> 'g \<Rightarrow>
   real list list \<times> real list list \<times> 'g" where
  "simulate n normal m_return m_volatility initial_amount monthly_contribution months g =
    fold (trajectory_step normal m_return m_volatility initial_amount monthly_contribution months)
      [0 ..< n] (np_zeros n (months + 1), np_zeros n (months + 1), g)"

subsection \<open>Percentiles (lines 43 to 45)\<close>

text \<open>
  \<^verbatim>\<open>np.percentile(a, q)\<close> with NumPy's default method, \<open>linear\<close>, on a
  one-dimensional array with at least one element and \<open>0 \<le> q \<le> 100\<close>: the array is sorted,
  the virtual index is \<open>q / 100 * (n - 1)\<close>, the two neighbouring indices are its floor and
  the floor plus one, both clipped to the last index, and the result interpolates linearly
  between the two elements with the fractional part of the virtual index.
\<close>

definition percentile :: "real list \<Rightarrow> real \<Rightarrow> real" where
  "percentile a q =
    (let n = length a;
         arr = sort a;
         virtual_index = q / 100 * (real n - 1);
         previous_index = min (nat \<lfloor>virtual_index\<rfloor>) (n - 1);
         next_index = min (nat \<lfloor>virtual_index\<rfloor> + 1) (n - 1);
         gamma = virtual_index - real_of_int \<lfloor>virtual_index\<rfloor>
     in arr ! previous_index + (arr ! next_index - arr ! previous_index) * gamma)"

text \<open>Column \<open>m\<close> of a two-dimensional array: the values of month \<open>m\<close>, one per trajectory.\<close>

definition column :: "real list list \<Rightarrow> nat \<Rightarrow> real list" where
  "column a m = map (\<lambda>row. row ! m) a"

text \<open>\<^verbatim>\<open>np.percentile(a, q, axis=0)\<close> on an array of \<open>cols\<close> columns: one percentile per column.\<close>

definition percentile_axis0 :: "real list list \<Rightarrow> nat \<Rightarrow> real \<Rightarrow> real list" where
  "percentile_axis0 a cols q = map (\<lambda>m. percentile (column a m) q) [0 ..< cols]"

subsection \<open>The result table (lines 47 to 57)\<close>

text \<open>
  The data frame is the sequence of its rows; the fields are its six columns
  (\<^verbatim>\<open>Month\<close>, \<^verbatim>\<open>Year\<close>, \<^verbatim>\<open>Median Projection\<close>, \<^verbatim>\<open>Lower Bound (10%)\<close>,
  \<^verbatim>\<open>Upper Bound (90%)\<close>, \<^verbatim>\<open>Cumulative Investment\<close>).
\<close>

record projection_row =
  Month :: nat
  Year :: real
  Median_Projection :: real
  Lower_Bound_10 :: real
  Upper_Bound_90 :: real
  Cumulative_Investment :: real

definition results ::
  "nat \<Rightarrow> real list \<Rightarrow> real list \<Rightarrow> real list \<Rightarrow> real list \<Rightarrow> projection_row list" where
  "results months median_projection lower_bound upper_bound cumulative_row =
    map (\<lambda>m. \<lparr>Month = m,
              Year = real m / 12,
              Median_Projection = median_projection ! m,
              Lower_Bound_10 = lower_bound ! m,
              Upper_Bound_90 = upper_bound ! m,
              Cumulative_Investment = cumulative_row ! m\<rparr>)
      [0 ..< months + 1]"

subsection \<open>The engine\<close>

text \<open>
  The body of \<^verbatim>\<open>calculate_investment_projection\<close> with \<^verbatim>\<open>num_simulations\<close> as a
  parameter. The steps are in the order of the source: the lookup (line 18), the
  monthly parameters (lines 26 and 27), the allocation (line 29, which fails on a negative
  dimension), the loops, the percentiles, the table. After the allocation \<open>months + 1 \<ge> 0\<close>,
  and \<open>months\<close> is a multiple of 12, so \<open>months \<ge> 0\<close>. With no trajectory at all,
  \<^verbatim>\<open>cumulative_investment[0]\<close> (line 54) is beyond the array.
  The result comes with the generator as the call leaves it.
\<close>

definition projection_with ::
  "nat \<Rightarrow> 'g sampler \<Rightarrow> real \<Rightarrow> real \<Rightarrow> int \<Rightarrow> int \<Rightarrow> 'g \<Rightarrow>
   (error + projection_row list) \<times> 'g" where
  "projection_with n normal initial_amount monthly_contribution risk_appetite years g =
    (case risk_lookup risk_appetite of
       Inl e \<Rightarrow> (Inl e, g)
     | Inr params \<Rightarrow>
        let months = years * 12;
            annual_return = mean_return params;
            annual_volatility = volatility params;
            m_return = monthly_return annual_return;
            m_volatility = monthly_volatility annual_volatility
        in if months + 1 < 0 then (Inl ValueError, g)
           else
             let (simulations, cumulative_investment, g') =
                   simulate n normal m_return m_volatility initial_amount
                     monthly_contribution (nat months) g;
                 lower_bound = percentile_axis0 simulations (nat months + 1) 10;
                 median_projection = percentile_axis0 simulations (nat months + 1) 50;
                 upper_bound = percentile_axis0 simulations (nat months + 1) 90
             in if n = 0 then (Inl IndexError, g')
                else (Inr (results (nat months) median_projection lower_bound upper_bound
                            (cumulative_investment ! 0)), g'))"

definition num_simulations :: nat where
  "num_simulations = 1000"

definition calculate_investment_projection ::
  "'g sampler \<Rightarrow> real \<Rightarrow> real \<Rightarrow> int \<Rightarrow> int \<Rightarrow> 'g \<Rightarrow> (error + projection_row list) \<times> 'g" where
  "calculate_investment_projection = projection_with num_simulations"


section \<open>The specification's formulas\<close>

text \<open>
  The closed forms the specification gives, written from its words, to compare the
  loops and the percentile with. \<open>spec_value r\<close> is the value recurrence of one
  trajectory whose draw for month \<open>m + 1\<close> is \<open>r m\<close>.
\<close>

fun spec_value :: "(nat \<Rightarrow> real) \<Rightarrow> real \<Rightarrow> real \<Rightarrow> nat \<Rightarrow> real" where
  "spec_value r initial_amount monthly_contribution 0 = initial_amount"
| "spec_value r initial_amount monthly_contribution (Suc m) =
     spec_value r initial_amount monthly_contribution m * (1 + r m) + monthly_contribution"


text \<open>
  Trajectory \<open>i\<close> takes the draws \<open>i * months, ..., i * months + months - 1\<close> of the
  generator; the contributions are \<open>initial_amount + m * monthly_contribution\<close>.
\<close>

definition spec_path :: "'g sampler \<Rightarrow> real \<Rightarrow> real \<Rightarrow> real \<Rightarrow> real \<Rightarrow> nat \<Rightarrow> 'g \<Rightarrow> nat \<Rightarrow> real list" where
  "spec_path normal mr mv ia mc months g i =
     map (spec_value (\<lambda>m. draw normal mr mv g (i * months + m)) ia mc) [0 ..< months + 1]"

definition spec_contributions :: "real \<Rightarrow> real \<Rightarrow> nat \<Rightarrow> real list" where
  "spec_contributions ia mc months = map (\<lambda>m. ia + real m * mc) [0 ..< months + 1]"


text \<open>
  The percentile of the specification: rank \<open>p / 100 * (N - 1)\<close>, interpolated between
  the adjacent order statistics.
\<close>

definition spec_percentile :: "real list \<Rightarrow> real \<Rightarrow> real" where
  "spec_percentile xs p =
    (let N = length xs;
         ordered = sort xs;
         rank = p / 100 * (real N - 1);
         k = nat \<lfloor>rank\<rfloor>;
         frac = rank - real k
     in if frac = 0 then ordered ! k
        else ordered ! k + frac * (ordered ! (k + 1) - ordered ! k))"


text \<open>
  The ensemble the loops are to produce, and the row of the table for month \<open>m\<close>: the
  three percentiles of column \<open>m\<close> and the contributions paid in up to month \<open>m\<close>.
\<close>

definition spec_ensemble ::
  "nat \<Rightarrow> 'g sampler \<Rightarrow> real \<Rightarrow> real \<Rightarrow> real \<Rightarrow> real \<Rightarrow> nat \<Rightarrow> 'g \<Rightarrow> real list list" where
  "spec_ensemble n normal mr mv ia mc months g =
     map (spec_path normal mr mv ia mc months g) [0 ..< n]"

definition spec_row :: "real list list \<Rightarrow> real \<Rightarrow> real \<Rightarrow> nat \<Rightarrow> projection_row" where
  "spec_row sims ia mc m =
     \<lparr>Month = m, Year = real m / 12,
      Median_Projection = percentile (column sims m) 50,
      Lower_Bound_10 = percentile (column sims m) 10,
      Upper_Bound_90 = percentile (column sims m) 90,
      Cumulative_Investment = ia + real m * mc\<rparr>"

text \<open>The sampler that returns the mean at every draw, on a generator without state.\<close>

definition mean_sampler :: "unit sampler" where
  "mean_sampler mu sd g = (mu, g)"

text \<open>
  The sampler that reads standard normal draws from a list, \<open>mu + sd * z\<close> for the next
  \<open>z\<close>, and returns the mean once the list is used up.
\<close>

definition scripted_sampler :: "real list sampler" where
  "scripted_sampler mu sd g =
     (case g of [] \<Rightarrow> (mu, []) | z # zs \<Rightarrow> (mu + sd * z, zs))"

section \<open>The loops compute the recurrence\<close>

lemma gen_after_add:
  "gen_after normal mu sd (gen_after normal mu sd g a) b = gen_after normal mu sd g (a + b)"
  by (induction b) simp_all

lemma draw_shift:
  "draw normal mu sd (gen_after normal mu sd g a) b = draw normal mu sd g (a + b)"
  by (simp add: draw_def gen_after_add)

lemma month_step_eq:
  "month_step normal mr mv mc j (sim, cum, g) =
     (sim[j := sim ! (j - 1) * (1 + fst (normal mr mv g)) + mc],
      cum[j := cum ! (j - 1) + mc],
      snd (normal mr mv g))"
  by (simp add: month_step_def Let_def split: prod.splits)

lemma month_loop_inv:
  assumes "length sim0 = L" and "length cum0 = L" and "sim0 ! 0 = ia" and "cum0 ! 0 = ia"
  shows "k < L \<Longrightarrow>
    fold (month_step normal mr mv mc) [1 ..< Suc k] (sim0, cum0, g) = (sim, cum, g') \<Longrightarrow>
    length sim = L \<and> length cum = L \<and> g' = gen_after normal mr mv g k \<and>
    (\<forall>m\<le>k. sim ! m = spec_value (draw normal mr mv g) ia mc m \<and> cum ! m = ia + real m * mc) \<and>
    (\<forall>m. k < m \<longrightarrow> m < L \<longrightarrow> sim ! m = sim0 ! m \<and> cum ! m = cum0 ! m)"
proof (induction k arbitrary: sim cum g')
  case 0
  then show ?case using assms by simp
next
  case (Suc k)
  obtain s1 c1 g1 where mid:
    "fold (month_step normal mr mv mc) [1 ..< Suc k] (sim0, cum0, g) = (s1, c1, g1)"
    by (metis prod_cases3)
  from Suc.prems have kL: "k < L" by simp
  note ih = Suc.IH [OF kL mid]
  have upt: "[1 ..< Suc (Suc k)] = [1 ..< Suc k] @ [Suc k]" by simp
  from Suc.prems(2) have step: "month_step normal mr mv mc (Suc k) (s1, c1, g1) = (sim, cum, g')"
    unfolding upt fold_append using mid by simp
  from step have sim: "sim = s1[Suc k := s1 ! k * (1 + fst (normal mr mv g1)) + mc]"
    and cum: "cum = c1[Suc k := c1 ! k + mc]" and g': "g' = snd (normal mr mv g1)"
    by (simp_all add: month_step_eq)
  have r: "fst (normal mr mv g1) = draw normal mr mv g k"
    using ih by (simp add: draw_def)
  show ?case
  proof (intro conjI allI impI)
    show "length sim = L" using ih sim by simp
    show "length cum = L" using ih cum by simp
    show "g' = gen_after normal mr mv g (Suc k)" using ih g' by simp
  next
    fix m assume "m \<le> Suc k"
    then show "sim ! m = spec_value (draw normal mr mv g) ia mc m"
      using ih sim r Suc.prems(1) by (cases "m = Suc k") (simp_all add: le_Suc_eq)
  next
    fix m assume "m \<le> Suc k"
    then show "cum ! m = ia + real m * mc"
      using ih cum Suc.prems(1) by (cases "m = Suc k") (simp_all add: le_Suc_eq algebra_simps)
  next
    fix m assume "Suc k < m" "m < L"
    then show "sim ! m = sim0 ! m" using ih sim by simp
  next
    fix m assume "Suc k < m" "m < L"
    then show "cum ! m = cum0 ! m" using ih cum by simp
  qed
qed

lemma month_loop:
  assumes "length sim0 = Suc months" and "length cum0 = Suc months"
  shows "fold (month_step normal mr mv mc) [1 ..< months + 1] (sim0[0 := ia], cum0[0 := ia], g) =
    (map (spec_value (draw normal mr mv g) ia mc) [0 ..< months + 1],
     map (\<lambda>m. ia + real m * mc) [0 ..< months + 1],
     gen_after normal mr mv g months)"
proof -
  obtain sim cum g' where f:
    "fold (month_step normal mr mv mc) [1 ..< Suc months] (sim0[0 := ia], cum0[0 := ia], g) = (sim, cum, g')"
    by (metis prod_cases3)
  have inv: "length sim = Suc months \<and> length cum = Suc months \<and> g' = gen_after normal mr mv g months \<and>
    (\<forall>m\<le>months. sim ! m = spec_value (draw normal mr mv g) ia mc m \<and> cum ! m = ia + real m * mc)"
    using month_loop_inv [of "sim0[0 := ia]" "Suc months" "cum0[0 := ia]" ia months normal mr mv mc g sim cum g']
      assms f by simp
  have "sim = map (spec_value (draw normal mr mv g) ia mc) [0 ..< months + 1]"
    using inv by (intro nth_equalityI) (simp_all add: less_Suc_eq_le del: upt_Suc)
  moreover have "cum = map (\<lambda>m. ia + real m * mc) [0 ..< months + 1]"
    using inv by (intro nth_equalityI) (simp_all add: less_Suc_eq_le del: upt_Suc)
  ultimately show ?thesis using f inv by (simp del: upt_Suc)
qed


lemma trajectory_step_eq:
  assumes "length (sims ! i) = Suc months" and "length (cums ! i) = Suc months"
  shows "trajectory_step normal mr mv ia mc months i (sims, cums, g) =
    (sims[i := map (spec_value (draw normal mr mv g) ia mc) [0 ..< months + 1]],
     cums[i := spec_contributions ia mc months],
     gen_after normal mr mv g months)"
  unfolding trajectory_step_def spec_contributions_def
  by (simp only: prod.case Let_def month_loop [OF assms])

lemma trajectory_loop_inv:
  "k \<le> n \<Longrightarrow>
   fold (trajectory_step normal mr mv ia mc months) [0 ..< k]
     (np_zeros n (months + 1), np_zeros n (months + 1), g) = (sims, cums, g') \<Longrightarrow>
   length sims = n \<and> length cums = n \<and> g' = gen_after normal mr mv g (k * months) \<and>
   (\<forall>i<k. sims ! i = spec_path normal mr mv ia mc months g i \<and>
           cums ! i = spec_contributions ia mc months) \<and>
   (\<forall>i. k \<le> i \<longrightarrow> i < n \<longrightarrow> sims ! i = replicate (months + 1) 0 \<and>
           cums ! i = replicate (months + 1) 0)"
proof (induction k arbitrary: sims cums g')
  case 0
  then show ?case by (auto simp add: np_zeros_def)
next
  case (Suc k)
  obtain s1 c1 g1 where mid:
    "fold (trajectory_step normal mr mv ia mc months) [0 ..< k]
       (np_zeros n (months + 1), np_zeros n (months + 1), g) = (s1, c1, g1)"
    by (metis prod_cases3)
  from Suc.prems have kn: "k < n" by simp
  then have "k \<le> n" by simp
  note ih = Suc.IH [OF this mid]
  have rows: "length (s1 ! k) = Suc months" "length (c1 ! k) = Suc months"
    using ih kn by simp_all
  have g1: "g1 = gen_after normal mr mv g (k * months)" using ih by simp
  from Suc.prems(2) mid have
    "trajectory_step normal mr mv ia mc months k (s1, c1, g1) = (sims, cums, g')"
    by simp
  then have sims: "sims = s1[k := map (spec_value (draw normal mr mv g1) ia mc) [0 ..< months + 1]]"
    and cums: "cums = c1[k := spec_contributions ia mc months]"
    and g': "g' = gen_after normal mr mv g1 months"
    by (simp_all only: trajectory_step_eq [OF rows] prod.inject)
  have row: "map (spec_value (draw normal mr mv g1) ia mc) [0 ..< months + 1] =
      spec_path normal mr mv ia mc months g k"
  proof -
    have "draw normal mr mv g1 = (\<lambda>m. draw normal mr mv g (k * months + m))"
      unfolding g1 by (rule ext) (rule draw_shift)
    then show ?thesis by (simp only: spec_path_def)
  qed
  show ?case
  proof (intro conjI allI impI)
    show "length sims = n" using ih sims by simp
    show "length cums = n" using ih cums by simp
    show "g' = gen_after normal mr mv g (Suc k * months)"
      using g' g1 by (simp add: gen_after_add add.commute)
  next
    fix i assume "i < Suc k"
    then show "sims ! i = spec_path normal mr mv ia mc months g i"
      using ih sims row kn by (cases "i = k") (simp_all add: less_Suc_eq)
  next
    fix i assume "i < Suc k"
    then show "cums ! i = spec_contributions ia mc months"
      using ih cums kn by (cases "i = k") (simp_all add: less_Suc_eq)
  next
    fix i assume "Suc k \<le> i" "i < n"
    then show "sims ! i = replicate (months + 1) 0" using ih sims by simp
  next
    fix i assume "Suc k \<le> i" "i < n"
    then show "cums ! i = replicate (months + 1) 0" using ih cums by simp
  qed
qed

lemma simulate_eq:
  "simulate n normal mr mv ia mc months g =
    (map (spec_path normal mr mv ia mc months g) [0 ..< n],
     replicate n (spec_contributions ia mc months),
     gen_after normal mr mv g (n * months))"
proof -
  obtain sims cums g' where f: "simulate n normal mr mv ia mc months g = (sims, cums, g')"
    by (metis prod_cases3)
  have inv: "length sims = n \<and> length cums = n \<and> g' = gen_after normal mr mv g (n * months) \<and>
   (\<forall>i<n. sims ! i = spec_path normal mr mv ia mc months g i \<and>
           cums ! i = spec_contributions ia mc months)"
    using trajectory_loop_inv [of n n normal mr mv ia mc months g sims cums g'] f
    by (simp add: simulate_def)
  have "sims = map (spec_path normal mr mv ia mc months g) [0 ..< n]"
    using inv by (intro nth_equalityI) simp_all
  moreover have "cums = replicate n (spec_contributions ia mc months)"
    using inv by (intro nth_equalityI) simp_all
  ultimately show ?thesis using f inv by simp
qed

section \<open>The percentile\<close>

lemma interp_between:
  fixes s :: "real list"
  assumes "sorted s" and "i \<le> j" and "j < length s" and "0 \<le> t" and "t \<le> 1"
  shows "s ! i \<le> s ! i + (s ! j - s ! i) * t" and "s ! i + (s ! j - s ! i) * t \<le> s ! j"
proof -
  have le: "s ! i \<le> s ! j" using assms(1-3) by (rule sorted_nth_mono)
  then have "0 \<le> (s ! j - s ! i) * t" using assms(4) by simp
  then show "s ! i \<le> s ! i + (s ! j - s ! i) * t" by simp
  have "(s ! j - s ! i) * t \<le> (s ! j - s ! i) * 1"
    using le assms(5) by (intro mult_left_mono) simp_all
  then show "s ! i + (s ! j - s ! i) * t \<le> s ! j" by simp
qed

lemma rank_bounds:
  assumes "0 < n" and "0 \<le> q" and "q \<le> 100"
  shows "0 \<le> q / 100 * (real n - 1)" and "q / 100 * (real n - 1) \<le> real n - 1"
proof -
  have n: "0 \<le> real n - 1" using assms(1) by simp
  show "0 \<le> q / 100 * (real n - 1)" using n assms(2) by simp
  have "q / 100 * (real n - 1) \<le> 1 * (real n - 1)"
    using n assms(3) by (intro mult_right_mono) simp_all
  then show "q / 100 * (real n - 1) \<le> real n - 1" by simp
qed

lemma floor_index:
  assumes "0 \<le> r" and "r \<le> real n - 1"
  shows "real (nat \<lfloor>r\<rfloor>) = of_int \<lfloor>r\<rfloor>" and "nat \<lfloor>r\<rfloor> \<le> n - 1"
proof -
  show "real (nat \<lfloor>r\<rfloor>) = of_int \<lfloor>r\<rfloor>" using assms(1) by simp
  have "\<lfloor>r\<rfloor> \<le> \<lfloor>real n - 1\<rfloor>" using assms(2) by (rule floor_mono)
  also have "\<lfloor>real n - 1\<rfloor> = int n - 1" by linarith
  finally show "nat \<lfloor>r\<rfloor> \<le> n - 1" by linarith
qed

lemma percentile_mono:
  assumes ne: "a \<noteq> []" and p0: "0 \<le> p" and pq: "p \<le> q" and q100: "q \<le> 100"
  shows "percentile a p \<le> percentile a q"
proof -
  define n where "n = length a"
  define s where "s = sort a"
  define rp where "rp = p / 100 * (real n - 1)"
  define rq where "rq = q / 100 * (real n - 1)"
  define kp where "kp = nat \<lfloor>rp\<rfloor>"
  define kq where "kq = nat \<lfloor>rq\<rfloor>"
  have n: "0 < n" using ne by (simp add: n_def)
  have srt: "sorted s" and len: "length s = n" by (simp_all add: s_def n_def)
  have rp: "0 \<le> rp" "rp \<le> real n - 1"
    unfolding rp_def using rank_bounds [OF n p0] pq q100 by simp_all
  have rq: "0 \<le> rq" "rq \<le> real n - 1"
    unfolding rq_def using rank_bounds [OF n] p0 pq q100 by simp_all
  have rpq: "rp \<le> rq"
    unfolding rp_def rq_def using pq n by (intro mult_right_mono) simp_all
  have kp: "real kp = of_int \<lfloor>rp\<rfloor>" "kp \<le> n - 1"
    unfolding kp_def using floor_index [OF rp] by simp_all
  have kq: "real kq = of_int \<lfloor>rq\<rfloor>" "kq \<le> n - 1"
    unfolding kq_def using floor_index [OF rq] by simp_all
  have kpq: "kp \<le> kq"
    unfolding kp_def kq_def using rpq by (intro nat_mono floor_mono)
  define gp where "gp = rp - of_int \<lfloor>rp\<rfloor>"
  define gq where "gq = rq - of_int \<lfloor>rq\<rfloor>"
  have gp: "0 \<le> gp" "gp \<le> 1" unfolding gp_def by linarith+
  have gq: "0 \<le> gq" "gq \<le> 1" unfolding gq_def by linarith+
  define f where "f k g = s ! min k (n - 1) + (s ! min (k + 1) (n - 1) - s ! min k (n - 1)) * g"
    for k :: nat and g :: real
  have P: "percentile a p = f kp gp"
    by (simp add: percentile_def Let_def f_def s_def n_def rp_def kp_def gp_def)
  have Q: "percentile a q = f kq gq"
    by (simp add: percentile_def Let_def f_def s_def n_def rq_def kq_def gq_def)
  have idx: "min k (n - 1) \<le> min (k + 1) (n - 1)" "min (k + 1) (n - 1) < length s" for k
    using n len by simp_all
  have lower: "s ! min k (n - 1) \<le> f k g" and upper: "f k g \<le> s ! min (k + 1) (n - 1)"
    if "0 \<le> g" "g \<le> 1" for k g
    unfolding f_def using interp_between [OF srt idx that] by simp_all
  show ?thesis
  proof (cases "kp = kq")
    case True
    have "gp \<le> gq"
      using rpq kp(1) kq(1) True by (simp add: gp_def gq_def)
    moreover have "s ! min kq (n - 1) \<le> s ! min (kq + 1) (n - 1)"
      using srt idx by (rule sorted_nth_mono)
    ultimately have "(s ! min (kq + 1) (n - 1) - s ! min kq (n - 1)) * gp
        \<le> (s ! min (kq + 1) (n - 1) - s ! min kq (n - 1)) * gq"
      by (intro mult_left_mono) simp_all
    then show ?thesis by (simp add: P Q f_def True)
  next
    case False
    with kpq have "kp + 1 \<le> kq" by simp
    then have "min (kp + 1) (n - 1) \<le> min kq (n - 1)" by simp
    moreover have "min kq (n - 1) < length s" using n len by simp
    ultimately have mid: "s ! min (kp + 1) (n - 1) \<le> s ! min kq (n - 1)"
      using srt by (intro sorted_nth_mono)
    have "f kp gp \<le> s ! min (kp + 1) (n - 1)" using gp by (rule upper)
    also note mid
    also have "s ! min kq (n - 1) \<le> f kq gq" using gq by (rule lower)
    finally show ?thesis by (simp add: P Q)
  qed
qed

lemma percentile_constant:
  assumes "a \<noteq> []" and "\<forall>x\<in>set a. x = v"
  shows "percentile a q = v"
proof -
  have "\<forall>x\<in>set (sort a). x = v" using assms(2) by simp
  moreover have "length (sort a) = length a" by simp
  ultimately have "sort a ! i = v" if "i < length a" for i
    using that by (metis nth_mem)
  moreover have "min k (length a - 1) < length a" for k
    using assms(1) by (cases a) simp_all
  ultimately show ?thesis by (simp add: percentile_def Let_def)
qed

lemma percentile_spec:
  assumes ne: "a \<noteq> []" and q0: "0 \<le> q" and q100: "q \<le> 100"
  shows "percentile a q = spec_percentile a q"
proof -
  define n where "n = length a"
  define r where "r = q / 100 * (real n - 1)"
  define k where "k = nat \<lfloor>r\<rfloor>"
  have n: "0 < n" using ne by (simp add: n_def)
  have r: "0 \<le> r" "r \<le> real n - 1"
    unfolding r_def using rank_bounds [OF n q0 q100] by simp_all
  have k: "real k = of_int \<lfloor>r\<rfloor>" "k \<le> n - 1"
    unfolding k_def using floor_index [OF r] by simp_all
  have mk: "min k (n - 1) = k" using k(2) by simp
  have P: "percentile a q = sort a ! min k (n - 1) +
      (sort a ! min (k + 1) (n - 1) - sort a ! min k (n - 1)) * (r - real k)"
    unfolding k(1) by (simp add: percentile_def Let_def n_def r_def k_def)
  have S: "spec_percentile a q =
      (if r - real k = 0 then sort a ! k
       else sort a ! k + (r - real k) * (sort a ! (k + 1) - sort a ! k))"
    by (simp only: spec_percentile_def Let_def n_def r_def k_def)
  show ?thesis
  proof (cases "r - real k = 0")
    case True
    then show ?thesis unfolding P S mk by simp
  next
    case False
    have "k \<noteq> n - 1"
    proof
      assume "k = n - 1"
      then have "real k = real n - 1" using n by (simp add: of_nat_diff)
      moreover have "real k \<le> r" unfolding k(1) by simp
      ultimately have "r = real k" using r(2) by simp
      with False show False by simp
    qed
    with k(2) have "min (k + 1) (n - 1) = k + 1" by simp
    then show ?thesis unfolding P S mk using False by simp
  qed
qed


section \<open>The engine, step by step\<close>

lemma risk_lookup_cases:
  "risk_lookup r =
    (if r = 1 then Inr \<lparr>mean_return = 4 / 100, volatility = 5 / 100\<rparr>
     else if r = 2 then Inr \<lparr>mean_return = 5 / 100, volatility = 7 / 100\<rparr>
     else if r = 3 then Inr \<lparr>mean_return = 6 / 100, volatility = 9 / 100\<rparr>
     else if r = 4 then Inr \<lparr>mean_return = 7 / 100, volatility = 11 / 100\<rparr>
     else if r = 5 then Inr \<lparr>mean_return = 8 / 100, volatility = 14 / 100\<rparr>
     else if r = 6 then Inr \<lparr>mean_return = 10 / 100, volatility = 17 / 100\<rparr>
     else if r = 7 then Inr \<lparr>mean_return = 12 / 100, volatility = 20 / 100\<rparr>
     else if r = 8 then Inr \<lparr>mean_return = 14 / 100, volatility = 25 / 100\<rparr>
     else Inl KeyError)"
  by (simp add: risk_lookup_def risk_parameters_def)

lemma level_cases:
  "(r::int) \<in> {1..8} \<longleftrightarrow> r = 1 \<or> r = 2 \<or> r = 3 \<or> r = 4 \<or> r = 5 \<or> r = 6 \<or> r = 7 \<or> r = 8"
  by auto

lemma risk_lookup_outside: "r \<notin> {1..8} \<Longrightarrow> risk_lookup r = Inl KeyError"
  unfolding level_cases by (simp add: risk_lookup_cases)

lemma risk_lookup_inside:
  assumes "r \<in> {1..8}"
  obtains params where "risk_lookup r = Inr params"
    and "0 < mean_return params" and "0 < volatility params"
  using assms unfolding level_cases by (auto simp add: risk_lookup_cases)

lemma risk_lookup_Inr_level: "risk_lookup r = Inr params \<Longrightarrow> r \<in> {1..8}"
  using risk_lookup_outside [of r] by auto

lemma projection_with_KeyError:
  "risk_lookup risk_appetite = Inl e \<Longrightarrow>
   projection_with n normal ia mc risk_appetite years g = (Inl e, g)"
  by (simp add: projection_with_def)

lemma projection_with_ValueError:
  "risk_lookup risk_appetite = Inr params \<Longrightarrow> years < 0 \<Longrightarrow>
   projection_with n normal ia mc risk_appetite years g = (Inl ValueError, g)"
  by (simp add: projection_with_def Let_def)

lemma projection_with_eq:
  assumes "risk_lookup risk_appetite = Inr params" and "0 \<le> years" and "0 < n"
    and "simulate n normal (monthly_return (mean_return params))
           (monthly_volatility (volatility params)) ia mc (nat (years * 12)) g = (sims, cums, g')"
  shows "projection_with n normal ia mc risk_appetite years g =
    (Inr (results (nat (years * 12))
            (percentile_axis0 sims (nat (years * 12) + 1) 50)
            (percentile_axis0 sims (nat (years * 12) + 1) 10)
            (percentile_axis0 sims (nat (years * 12) + 1) 90)
            (cums ! 0)), g')"
  using assms by (simp add: projection_with_def Let_def)

lemma results_length:
  "length (results months med lo hi cum) = months + 1"
  by (simp add: results_def)

lemma results_nth:
  "m \<le> months \<Longrightarrow> results months med lo hi cum ! m =
    \<lparr>Month = m, Year = real m / 12, Median_Projection = med ! m,
     Lower_Bound_10 = lo ! m, Upper_Bound_90 = hi ! m, Cumulative_Investment = cum ! m\<rparr>"
  unfolding results_def by (simp del: upt_Suc add: less_Suc_eq_le)

lemma percentile_axis0_nth:
  "m < cols \<Longrightarrow> percentile_axis0 a cols q ! m = percentile (column a m) q"
  by (simp add: percentile_axis0_def)

lemma spec_path_nth:
  "m \<le> months \<Longrightarrow> spec_path normal mr mv ia mc months g i ! m =
     spec_value (\<lambda>k. draw normal mr mv g (i * months + k)) ia mc m"
  unfolding spec_path_def by (simp del: upt_Suc add: less_Suc_eq_le)

lemma spec_contributions_nth:
  "m \<le> months \<Longrightarrow> spec_contributions ia mc months ! m = ia + real m * mc"
  unfolding spec_contributions_def by (simp del: upt_Suc add: less_Suc_eq_le)

lemma column_length: "length (column a m) = length a"
  by (simp add: column_def)

lemma column_month0:
  "x \<in> set (column (map (spec_path normal mr mv ia mc months g) [0 ..< n]) 0) \<Longrightarrow> x = ia"
  by (auto simp add: column_def spec_path_nth)


lemma simulate_ensemble:
  "simulate n normal mr mv ia mc months g =
    (spec_ensemble n normal mr mv ia mc months g,
     replicate n (spec_contributions ia mc months),
     gen_after normal mr mv g (n * months))"
  by (simp only: simulate_eq spec_ensemble_def)

lemma projection_with_success:
  assumes look: "risk_lookup risk_appetite = Inr params" and years: "0 \<le> years" and n: "0 < n"
    and months: "months = nat (years * 12)"
    and mr: "mr = monthly_return (mean_return params)"
    and mv: "mv = monthly_volatility (volatility params)"
  shows "projection_with n normal ia mc risk_appetite years g =
    (Inr (map (spec_row (spec_ensemble n normal mr mv ia mc months g) ia mc) [0 ..< months + 1]),
     gen_after normal mr mv g (n * months))"
proof -
  define sims where "sims = spec_ensemble n normal mr mv ia mc months g"
  have sim: "simulate n normal (monthly_return (mean_return params))
       (monthly_volatility (volatility params)) ia mc (nat (years * 12)) g =
     (sims, replicate n (spec_contributions ia mc months), gen_after normal mr mv g (n * months))"
    unfolding sims_def months mr mv by (rule simulate_ensemble)
  have rows: "results months (percentile_axis0 sims (months + 1) 50)
      (percentile_axis0 sims (months + 1) 10) (percentile_axis0 sims (months + 1) 90)
      (spec_contributions ia mc months) =
    map (spec_row sims ia mc) [0 ..< months + 1]"
    by (intro nth_equalityI)
      (simp_all del: upt_Suc add: results_length results_nth percentile_axis0_nth
         spec_contributions_nth spec_row_def less_Suc_eq_le)
  have "replicate n (spec_contributions ia mc months) ! 0 = spec_contributions ia mc months"
    using n by simp
  with projection_with_eq [OF look years n sim] rows
  show ?thesis unfolding sims_def months by simp
qed

lemma ensemble_length: "length (spec_ensemble n normal mr mv ia mc months g) = n"
  by (simp add: spec_ensemble_def)

lemma ensemble_nth:
  "i < n \<Longrightarrow> spec_ensemble n normal mr mv ia mc months g ! i = spec_path normal mr mv ia mc months g i"
  by (simp add: spec_ensemble_def)

lemma percentile_month0:
  assumes "0 < n"
  shows "percentile (column (spec_ensemble n normal mr mv ia mc months g) 0) q = ia"
proof (rule percentile_constant)
  show "column (spec_ensemble n normal mr mv ia mc months g) 0 \<noteq> []"
    using assms by (simp add: column_def spec_ensemble_def)
  show "\<forall>x\<in>set (column (spec_ensemble n normal mr mv ia mc months g) 0). x = ia"
    unfolding spec_ensemble_def by (intro ballI) (rule column_month0)
qed

lemma spec_row_month0:
  "0 < n \<Longrightarrow> spec_row (spec_ensemble n normal mr mv ia mc months g) ia mc 0 =
    \<lparr>Month = 0, Year = 0, Median_Projection = ia, Lower_Bound_10 = ia,
     Upper_Bound_90 = ia, Cumulative_Investment = ia\<rparr>"
  by (simp add: spec_row_def percentile_month0)

lemma num_simulations_pos: "0 < num_simulations"
  by (simp add: num_simulations_def)

lemma spec_row_fields:
  "Month (spec_row sims ia mc m) = m"
  "Year (spec_row sims ia mc m) = real m / 12"
  "Median_Projection (spec_row sims ia mc m) = percentile (column sims m) 50"
  "Lower_Bound_10 (spec_row sims ia mc m) = percentile (column sims m) 10"
  "Upper_Bound_90 (spec_row sims ia mc m) = percentile (column sims m) 90"
  "Cumulative_Investment (spec_row sims ia mc m) = ia + real m * mc"
  by (simp_all add: spec_row_def)

lemma table_nth:
  "m \<le> months \<Longrightarrow> map (spec_row sims ia mc) [0 ..< months + 1] ! m = spec_row sims ia mc m"
  by (simp del: upt_Suc add: less_Suc_eq_le)

section \<open>The monthly parameters\<close>

lemma monthly_return_power:
  assumes "- 1 < a"
  shows "(1 + monthly_return a) ^ 12 = 1 + a"
proof -
  have pos: "0 < 1 + a" using assms by simp
  have "(1 + monthly_return a) ^ 12 = ((1 + a) powr (1 / 12)) ^ 12"
    by (simp add: monthly_return_def)
  also have "\<dots> = ((1 + a) powr (1 / 12)) powr real (12::nat)"
    using pos by (intro powr_realpow [symmetric]) simp
  also have "\<dots> = (1 + a) powr (1 / 12 * real (12::nat))"
    by (rule powr_powr)
  also have "\<dots> = 1 + a" using pos by simp
  finally show ?thesis .
qed

lemma compound_exceeds_simple:
  fixes y :: real
  assumes "0 < y"
  shows "1 + 12 * y < (1 + y) ^ 12"
proof -
  have "1 + real 11 * y \<le> (1 + y) ^ 11"
    using assms by (intro Bernoulli_inequality) simp
  then have "(1 + 11 * y) * (1 + y) \<le> (1 + y) ^ 11 * (1 + y)"
    using assms by (intro mult_right_mono) simp_all
  moreover have "1 + 12 * y < (1 + 11 * y) * (1 + y)"
    using assms by (simp add: algebra_simps)
  moreover have "(1 + y) ^ 11 * (1 + y) = (1 + y) ^ 12"
    by (simp add: power_Suc2 [symmetric] del: power_Suc)
  ultimately show ?thesis by simp
qed

lemma monthly_return_less:
  assumes "0 < a"
  shows "monthly_return a < a / 12"
proof (rule ccontr)
  assume "\<not> monthly_return a < a / 12"
  then have le: "1 + a / 12 \<le> 1 + monthly_return a" by simp
  have "0 \<le> 1 + a / 12" using assms by simp
  with le have "(1 + a / 12) ^ 12 \<le> (1 + monthly_return a) ^ 12"
    by (intro power_mono)
  also have "\<dots> = 1 + a" using assms by (intro monthly_return_power) simp
  finally have "(1 + a / 12) ^ 12 \<le> 1 + a" .
  moreover have "1 + 12 * (a / 12) < (1 + a / 12) ^ 12"
    using assms by (intro compound_exceeds_simple) simp
  ultimately show False by simp
qed

lemma gen_after_cong:
  assumes "\<And>g. normal' mu sd g = normal mu sd g"
  shows "gen_after normal' mu sd g k = gen_after normal mu sd g k"
  by (induction k) (simp_all add: assms)

lemma draw_cong:
  assumes "\<And>g. normal' mu sd g = normal mu sd g"
  shows "draw normal' mu sd g k = draw normal mu sd g k"
  by (simp add: draw_def assms gen_after_cong [of normal' mu sd normal, OF assms])

lemma simulate_cong:
  assumes "\<And>g. normal' mu sd g = normal mu sd g"
  shows "simulate n normal' mu sd ia mc months g = simulate n normal mu sd ia mc months g"
  unfolding simulate_ensemble spec_ensemble_def spec_path_def
  by (simp only: draw_cong [of normal' mu sd normal, OF assms]
      gen_after_cong [of normal' mu sd normal, OF assms])

lemma projection_with_cong:
  assumes "risk_lookup risk_appetite = Inr params"
    and "\<And>g. normal' (monthly_return (mean_return params))
            (monthly_volatility (volatility params)) g =
          normal (monthly_return (mean_return params))
            (monthly_volatility (volatility params)) g"
  shows "projection_with n normal' ia mc risk_appetite years g =
    projection_with n normal ia mc risk_appetite years g"
  unfolding projection_with_def
  by (simp only: assms(1) sum.case Let_def
      simulate_cong [of normal' _ _ normal, OF assms(2)])

section \<open>The claims\<close>

text \<open>
  C3. The risk table maps each level to the pair the specification lists:
  1 to (0.04, 0.05), 2 to (0.05, 0.07), 3 to (0.06, 0.09), 4 to (0.07, 0.11),
  5 to (0.08, 0.14), 6 to (0.10, 0.17), 7 to (0.12, 0.20), 8 to (0.14, 0.25); and both
  the mean return and the volatility are strictly increasing in the level over 1..8.
\<close>

theorem risk_table_values:
  "risk_lookup 1 = Inr \<lparr>mean_return = 4 / 100, volatility = 5 / 100\<rparr> \<and>
   risk_lookup 2 = Inr \<lparr>mean_return = 5 / 100, volatility = 7 / 100\<rparr> \<and>
   risk_lookup 3 = Inr \<lparr>mean_return = 6 / 100, volatility = 9 / 100\<rparr> \<and>
   risk_lookup 4 = Inr \<lparr>mean_return = 7 / 100, volatility = 11 / 100\<rparr> \<and>
   risk_lookup 5 = Inr \<lparr>mean_return = 8 / 100, volatility = 14 / 100\<rparr> \<and>
   risk_lookup 6 = Inr \<lparr>mean_return = 10 / 100, volatility = 17 / 100\<rparr> \<and>
   risk_lookup 7 = Inr \<lparr>mean_return = 12 / 100, volatility = 20 / 100\<rparr> \<and>
   risk_lookup 8 = Inr \<lparr>mean_return = 14 / 100, volatility = 25 / 100\<rparr> \<and>
   (\<forall>a b pa pb. 1 \<le> a \<and> a < b \<and> b \<le> 8 \<and> risk_lookup a = Inr pa \<and> risk_lookup b = Inr pb \<longrightarrow>
      mean_return pa < mean_return pb \<and> volatility pa < volatility pb)"
proof -
  have mono: "mean_return pa < mean_return pb \<and> volatility pa < volatility pb"
    if "1 \<le> a" "a < b" "b \<le> 8" "risk_lookup a = Inr pa" "risk_lookup b = Inr pb"
    for a b pa pb
  proof -
    have "a \<in> {1..8}" "b \<in> {1..8}" using that by simp_all
    then show ?thesis
      using that unfolding level_cases by (auto simp add: risk_lookup_cases)
  qed
  show ?thesis
    using mono by (simp add: risk_lookup_cases)
qed

theorem risk_table_values_witness:
  "risk_lookup 3 = Inr \<lparr>mean_return = 6 / 100, volatility = 9 / 100\<rparr> \<and>
   risk_lookup 4 = Inr \<lparr>mean_return = 7 / 100, volatility = 11 / 100\<rparr> \<and>
   mean_return \<lparr>mean_return = 6 / 100, volatility = 9 / 100\<rparr>
     < mean_return \<lparr>mean_return = 7 / 100, volatility = 11 / 100\<rparr> \<and>
   volatility \<lparr>mean_return = 6 / 100, volatility = 9 / 100\<rparr>
     < volatility \<lparr>mean_return = 7 / 100, volatility = 11 / 100\<rparr>"
proof -
  note t = risk_table_values
  have l3: "risk_lookup 3 = Inr \<lparr>mean_return = 6 / 100, volatility = 9 / 100\<rparr>"
    and l4: "risk_lookup 4 = Inr \<lparr>mean_return = 7 / 100, volatility = 11 / 100\<rparr>"
    using t by blast+
  have "(1::int) \<le> 3 \<and> (3::int) < 4 \<and> (4::int) \<le> 8" by simp
  with t l3 l4 have
    "mean_return \<lparr>mean_return = 6 / 100, volatility = 9 / 100\<rparr>
       < mean_return \<lparr>mean_return = 7 / 100, volatility = 11 / 100\<rparr> \<and>
     volatility \<lparr>mean_return = 6 / 100, volatility = 9 / 100\<rparr>
       < volatility \<lparr>mean_return = 7 / 100, volatility = 11 / 100\<rparr>"
    by blast
  with l3 l4 show ?thesis by blast
qed


text \<open>
  C2. A risk level outside 1..8 makes the call fail at the lookup of line 18, with the
  \<open>KeyError\<close> of the dictionary (the specification's \<open>InvalidRiskLevel\<close>): the match is
  exact, nothing is clamped or interpolated, the error reaches the caller and no random
  draw has been made. For every level in 1..8 the lookup succeeds, and the call does not
  fail with that error.
\<close>

theorem risk_level_lookup:
  "(risk_appetite \<notin> {1..8} \<longrightarrow>
      calculate_investment_projection normal ia mc risk_appetite years g = (Inl KeyError, g)) \<and>
   (risk_appetite \<in> {1..8} \<longrightarrow>
      (\<exists>params. risk_lookup risk_appetite = Inr params) \<and>
      fst (calculate_investment_projection normal ia mc risk_appetite years g) \<noteq> Inl KeyError)"
proof (intro conjI impI)
  assume "risk_appetite \<notin> {1..8}"
  then show "calculate_investment_projection normal ia mc risk_appetite years g = (Inl KeyError, g)"
    unfolding calculate_investment_projection_def
    by (intro projection_with_KeyError risk_lookup_outside)
next
  assume level: "risk_appetite \<in> {1..8}"
  then obtain params where look: "risk_lookup risk_appetite = Inr params"
    by (rule risk_lookup_inside)
  then show "\<exists>params. risk_lookup risk_appetite = Inr params" ..
  show "fst (calculate_investment_projection normal ia mc risk_appetite years g) \<noteq> Inl KeyError"
  proof (cases "years < 0")
    case True
    then show ?thesis
      unfolding calculate_investment_projection_def
      by (simp add: projection_with_ValueError [OF look])
  next
    case False
    then have "0 \<le> years" by simp
    then show ?thesis
      unfolding calculate_investment_projection_def
      by (simp add: projection_with_success [OF look _ num_simulations_pos refl refl refl])
  qed
qed

theorem risk_level_lookup_witness:
  "calculate_investment_projection mean_sampler 1000000 5000 9 10 () = (Inl KeyError, ()) \<and>
   calculate_investment_projection mean_sampler 1000000 5000 0 10 () = (Inl KeyError, ()) \<and>
   (\<exists>params. risk_lookup 4 = Inr params) \<and>
   fst (calculate_investment_projection mean_sampler 1000000 5000 4 10 ()) \<noteq> Inl KeyError"
  using risk_level_lookup [of 9 mean_sampler 1000000 5000 10 "()"]
    risk_level_lookup [of 0 mean_sampler 1000000 5000 10 "()"]
    risk_level_lookup [of 4 mean_sampler 1000000 5000 10 "()"]
  by simp


text \<open>
  C1, as the specification states it, does not hold: the engine checks neither the
  horizon nor the amounts. With a horizon of 0 years the call returns the one-row table of
  month 0, and with a negative initial amount or a negative monthly contribution it
  returns a table as well.
\<close>

theorem zero_horizon_and_negative_amounts_accepted:
  "fst (calculate_investment_projection mean_sampler 1000000 5000 4 0 ()) =
     Inr [\<lparr>Month = 0, Year = 0, Median_Projection = 1000000, Lower_Bound_10 = 1000000,
           Upper_Bound_90 = 1000000, Cumulative_Investment = 1000000\<rparr>] \<and>
   \<not> isl (fst (calculate_investment_projection mean_sampler (- 1000000) 5000 4 10 ())) \<and>
   \<not> isl (fst (calculate_investment_projection mean_sampler 1000000 (- 5000) 4 10 ()))"
proof -
  obtain params where look: "risk_lookup 4 = Inr params"
    by (rule risk_lookup_inside [of 4]) simp_all
  have "\<not> isl (fst (calculate_investment_projection mean_sampler ia mc 4 10 ()))" for ia mc
    unfolding calculate_investment_projection_def
    by (simp add: projection_with_success [OF look _ num_simulations_pos refl refl refl])
  moreover have "fst (calculate_investment_projection mean_sampler 1000000 5000 4 0 ()) =
     Inr [\<lparr>Month = 0, Year = 0, Median_Projection = 1000000, Lower_Bound_10 = 1000000,
           Upper_Bound_90 = 1000000, Cumulative_Investment = 1000000\<rparr>]"
    unfolding calculate_investment_projection_def
    by (simp add: projection_with_success [OF look _ num_simulations_pos refl refl refl]
        spec_row_month0 [OF num_simulations_pos])
  ultimately show ?thesis by blast
qed


text \<open>
  C1, amended. Of the three conditions of the claim, the negative horizon is the one
  that makes the call fail: for a risk level in 1..8, a negative horizon and any
  amounts, the call fails at the allocation of line 29, with \<open>ValueError\<close>, before any
  random draw (the generator is returned as it was), and returns no table. Nothing is
  stated here for a horizon of 0 or for negative amounts, which the engine does not
  reject.
\<close>

theorem negative_horizon_fails:
  assumes "risk_appetite \<in> {1..8}" and "years < 0"
  shows "calculate_investment_projection normal ia mc risk_appetite years g =
    (Inl ValueError, g)"
proof -
  from assms(1) obtain params where look: "risk_lookup risk_appetite = Inr params"
    by (rule risk_lookup_inside)
  from look assms(2) show ?thesis
    unfolding calculate_investment_projection_def by (rule projection_with_ValueError)
qed

theorem negative_horizon_fails_witness:
  "(4::int) \<in> {1..8} \<and> (- 1::int) < 0 \<and>
   calculate_investment_projection mean_sampler 1000000 5000 4 (- 1) () =
     (Inl ValueError, ()) \<and>
   (8::int) \<in> {1..8} \<and> (- 20::int) < 0 \<and>
   calculate_investment_projection scripted_sampler (- 1000) (- 5) 8 (- 20) [1, - 1] =
     (Inl ValueError, [1, - 1])"
proof -
  have a: "(4::int) \<in> {1..8}" and b: "(- 1::int) < 0" by simp_all
  have c: "(8::int) \<in> {1..8}" and d: "(- 20::int) < 0" by simp_all
  from a b c d
    negative_horizon_fails [OF a b, of mean_sampler 1000000 5000 "()"]
    negative_horizon_fails [OF c d, of scripted_sampler "- 1000" "- 5" "[1, - 1]"]
  show ?thesis by (intro conjI)
qed


text \<open>
  C4. For the pair \<open>(annual_return, annual_volatility)\<close> that the risk table gives, the
  engine's monthly return is \<open>(1 + annual_return)\<close> to the power \<open>1 / 12\<close>, minus 1, and its
  monthly volatility is \<open>annual_volatility / sqrt 12\<close>. The monthly return compounds over
  twelve months to the annual return and is strictly below \<open>annual_return / 12\<close>. Every
  draw of the engine is made with exactly these two parameters: the result depends on the
  sampler only through its values there, and the generator the call leaves is the one
  after \<open>num_simulations * years * 12\<close> draws with them.
\<close>

theorem monthly_parameters:
  assumes "risk_lookup risk_appetite = Inr params"
  shows "monthly_return (mean_return params) = (1 + mean_return params) powr (1 / 12) - 1 \<and>
    monthly_volatility (volatility params) = volatility params / sqrt 12 \<and>
    (1 + monthly_return (mean_return params)) ^ 12 = 1 + mean_return params \<and>
    monthly_return (mean_return params) < mean_return params / 12 \<and>
    (\<forall>normal'.
       (\<forall>s. normal' ((1 + mean_return params) powr (1 / 12) - 1) (volatility params / sqrt 12) s =
            normal ((1 + mean_return params) powr (1 / 12) - 1) (volatility params / sqrt 12) s) \<longrightarrow>
       calculate_investment_projection normal' ia mc risk_appetite years g =
       calculate_investment_projection normal ia mc risk_appetite years g) \<and>
    (0 \<le> years \<longrightarrow>
       snd (calculate_investment_projection normal ia mc risk_appetite years g) =
       gen_after normal ((1 + mean_return params) powr (1 / 12) - 1) (volatility params / sqrt 12)
         g (num_simulations * nat (years * 12)))"
proof -
  from assms have "risk_appetite \<in> {1..8}" by (rule risk_lookup_Inr_level)
  then obtain p where "risk_lookup risk_appetite = Inr p" and "0 < mean_return p"
    by (rule risk_lookup_inside)
  with assms have pos: "0 < mean_return params" by simp
  have mr: "monthly_return (mean_return params) = (1 + mean_return params) powr (1 / 12) - 1"
    by (simp add: monthly_return_def)
  have mv: "monthly_volatility (volatility params) = volatility params / sqrt 12"
    by (simp add: monthly_volatility_def)
  have pw: "(1 + monthly_return (mean_return params)) ^ 12 = 1 + mean_return params"
    using pos by (intro monthly_return_power) simp
  have less: "monthly_return (mean_return params) < mean_return params / 12"
    using pos by (rule monthly_return_less)
  have cong: "calculate_investment_projection normal' ia mc risk_appetite years g =
       calculate_investment_projection normal ia mc risk_appetite years g"
    if "\<forall>s. normal' ((1 + mean_return params) powr (1 / 12) - 1) (volatility params / sqrt 12) s =
            normal ((1 + mean_return params) powr (1 / 12) - 1) (volatility params / sqrt 12) s"
    for normal'
    unfolding calculate_investment_projection_def
    using that by (intro projection_with_cong [OF assms]) (simp add: mr mv)
  have gen: "snd (calculate_investment_projection normal ia mc risk_appetite years g) =
       gen_after normal ((1 + mean_return params) powr (1 / 12) - 1) (volatility params / sqrt 12)
         g (num_simulations * nat (years * 12))" if "0 \<le> years"
    unfolding calculate_investment_projection_def
      projection_with_success [OF assms that num_simulations_pos refl refl refl]
    by (simp add: mr mv)
  from mr mv pw less cong gen show ?thesis by blast
qed

theorem monthly_parameters_witness:
  "risk_lookup 4 = Inr \<lparr>mean_return = 7 / 100, volatility = 11 / 100\<rparr> \<and>
   monthly_return (7 / 100) = (1 + 7 / 100) powr (1 / 12) - 1 \<and>
   monthly_volatility (11 / 100) = 11 / 100 / sqrt 12 \<and>
   (1 + monthly_return (7 / 100)) ^ 12 = 1 + 7 / 100 \<and>
   monthly_return (7 / 100) < 7 / 100 / 12 \<and>
   calculate_investment_projection
     (\<lambda>mu sd. scripted_sampler ((1 + 7 / 100) powr (1 / 12) - 1) (11 / 100 / sqrt 12))
     1000000 5000 4 10 [1, - 1, 0, 2] =
   calculate_investment_projection scripted_sampler 1000000 5000 4 10 [1, - 1, 0, 2] \<and>
   snd (calculate_investment_projection scripted_sampler 1000000 5000 4 10 [1, - 1, 0, 2]) =
     gen_after scripted_sampler ((1 + 7 / 100) powr (1 / 12) - 1) (11 / 100 / sqrt 12)
       [1, - 1, 0, 2] (num_simulations * nat (10 * 12))"
proof -
  have look: "risk_lookup 4 = Inr \<lparr>mean_return = 7 / 100, volatility = 11 / 100\<rparr>"
    by (simp add: risk_lookup_cases)
  have sel: "mean_return \<lparr>mean_return = 7 / 100, volatility = 11 / 100\<rparr> = 7 / 100"
    "volatility \<lparr>mean_return = 7 / 100, volatility = 11 / 100\<rparr> = 11 / 100"
    by simp_all
  note t = monthly_parameters [OF look, of scripted_sampler 1000000 5000 10 "[1, - 1, 0, 2]",
      unfolded sel]
  from t have a: "monthly_return (7 / 100) = (1 + 7 / 100) powr (1 / 12) - 1"
    by (rule conjunct1)
  from t have b: "monthly_volatility (11 / 100) = 11 / 100 / sqrt 12"
    by (elim conjE)
  from t have c: "(1 + monthly_return (7 / 100)) ^ 12 = 1 + 7 / 100"
    by (elim conjE)
  from t have d: "monthly_return (7 / 100) < 7 / 100 / 12"
    by (elim conjE)
  from t have e: "\<forall>normal'.
       (\<forall>s. normal' ((1 + 7 / 100) powr (1 / 12) - 1) (11 / 100 / sqrt 12) s =
            scripted_sampler ((1 + 7 / 100) powr (1 / 12) - 1) (11 / 100 / sqrt 12) s) \<longrightarrow>
       calculate_investment_projection normal' 1000000 5000 4 10 [1, - 1, 0, 2] =
       calculate_investment_projection scripted_sampler 1000000 5000 4 10 [1, - 1, 0, 2]"
    by (elim conjE)
  from t have f: "0 \<le> (10::int) \<longrightarrow>
       snd (calculate_investment_projection scripted_sampler 1000000 5000 4 10 [1, - 1, 0, 2]) =
       gen_after scripted_sampler ((1 + 7 / 100) powr (1 / 12) - 1) (11 / 100 / sqrt 12)
         [1, - 1, 0, 2] (num_simulations * nat (10 * 12))"
    by (elim conjE)
  have e': "calculate_investment_projection
     (\<lambda>mu sd. scripted_sampler ((1 + 7 / 100) powr (1 / 12) - 1) (11 / 100 / sqrt 12))
     1000000 5000 4 10 [1, - 1, 0, 2] =
   calculate_investment_projection scripted_sampler 1000000 5000 4 10 [1, - 1, 0, 2]"
    by (rule e [rule_format]) (rule refl)
  have "0 \<le> (10::int)" by simp
  with f have f': "snd (calculate_investment_projection scripted_sampler 1000000 5000 4 10 [1, - 1, 0, 2]) =
       gen_after scripted_sampler ((1 + 7 / 100) powr (1 / 12) - 1) (11 / 100 / sqrt 12)
         [1, - 1, 0, 2] (num_simulations * nat (10 * 12))"
    by (rule mp)
  from look a b c d e' f' show ?thesis by (intro conjI)
qed

text \<open>
  C5. In the ensemble the loops produce, every trajectory \<open>i\<close> starts with
  \<open>value[0] = initial_amount\<close> and \<open>cumulative[0] = initial_amount\<close>, and for every month
  \<open>m\<close> from 1 to \<open>months\<close>, with \<open>r\<close> the draw made for that trajectory and month (draw
  number \<open>i * months + (m - 1)\<close> of the generator), \<open>value[m] = value[m - 1] * (1 + r) +
  monthly_contribution\<close>, the contribution being added after the growth, and
  \<open>cumulative[m] = cumulative[m - 1] + monthly_contribution\<close>.
\<close>

theorem trajectory_recurrence:
  assumes sim: "simulate n normal mr mv ia mc months g = (sims, cums, g')" and i: "i < n"
  shows "sims ! i ! 0 = ia \<and> cums ! i ! 0 = ia \<and>
    (\<forall>m. 1 \<le> m \<and> m \<le> months \<longrightarrow>
       sims ! i ! m = sims ! i ! (m - 1) * (1 + draw normal mr mv g (i * months + (m - 1))) + mc \<and>
       cums ! i ! m = cums ! i ! (m - 1) + mc)"
proof -
  from sim i have row: "sims ! i = spec_path normal mr mv ia mc months g i"
    and crow: "cums ! i = spec_contributions ia mc months"
    by (auto simp add: simulate_ensemble ensemble_nth)
  have step: "sims ! i ! m = sims ! i ! (m - 1) * (1 + draw normal mr mv g (i * months + (m - 1))) + mc \<and>
       cums ! i ! m = cums ! i ! (m - 1) + mc" if "1 \<le> m" "m \<le> months" for m
  proof -
    from that obtain k where k: "m = Suc k" by (cases m) simp_all
    with that have "k \<le> months" by simp
    with that show ?thesis
      unfolding row crow k
      by (simp add: spec_path_nth spec_contributions_nth algebra_simps)
  qed
  have "sims ! i ! 0 = ia" "cums ! i ! 0 = ia"
    unfolding row crow by (simp_all add: spec_path_nth spec_contributions_nth)
  with step show ?thesis by blast
qed

theorem trajectory_recurrence_witness:
  "simulate 2 scripted_sampler (1 / 100) (1 / 10) 1000 50 2 [1, - 1, 0, 2] =
     ([[1000, 1160, 5528 / 5], [1000, 1060, 6663 / 5]],
      [[1000, 1050, 1100], [1000, 1050, 1100]], []) \<and>
   draw scripted_sampler (1 / 100) (1 / 10) [1, - 1, 0, 2] 3 = 21 / 100 \<and>
   [[1000, 1160, 5528 / 5], [1000, 1060, 6663 / 5 :: real]] ! 1 ! 0 = 1000 \<and>
   [[1000, 1160, 5528 / 5], [1000, 1060, 6663 / 5 :: real]] ! 1 ! 2 =
     [[1000, 1160, 5528 / 5], [1000, 1060, 6663 / 5]] ! 1 ! 1 * (1 + 21 / 100) + 50 \<and>
   [[1000, 1050, 1100], [1000, 1050, 1100 :: real]] ! 1 ! 2 =
     [[1000, 1050, 1100], [1000, 1050, 1100]] ! 1 ! 1 + 50"
proof -
  have sim: "simulate 2 scripted_sampler (1 / 100) (1 / 10) 1000 50 2 [1, - 1, 0, 2] =
     ([[1000, 1160, 5528 / 5], [1000, 1060, 6663 / 5]],
      [[1000, 1050, 1100], [1000, 1050, 1100]], [])"
    by code_simp
  have d: "draw scripted_sampler (1 / 100) (1 / 10) [1, - 1, 0, 2] 3 = 21 / 100"
    by code_simp
  have i: "(1::nat) < 2" by simp
  from trajectory_recurrence [OF sim i] d sim show ?thesis
    by simp
qed

text \<open>
  C6. For every positive horizon (and a risk level of the table) the call returns a
  table of exactly \<open>years * 12 + 1\<close> rows, and row \<open>k\<close> has \<open>Month = k\<close> and
  \<open>Year = k / 12\<close>, for \<open>k\<close> from 0 to \<open>years * 12\<close>.
\<close>

theorem result_table_shape:
  assumes "0 < years" and "risk_appetite \<in> {1..8}"
  shows "\<exists>rows. fst (calculate_investment_projection normal ia mc risk_appetite years g) = Inr rows \<and>
    length rows = nat (years * 12 + 1) \<and>
    (\<forall>k. k \<le> nat (years * 12) \<longrightarrow> Month (rows ! k) = k \<and> Year (rows ! k) = real k / 12)"
proof -
  from assms(2) obtain params where look: "risk_lookup risk_appetite = Inr params"
    by (rule risk_lookup_inside)
  from assms(1) have years: "0 \<le> years" by simp
  then have len: "nat (years * 12) + 1 = nat (years * 12 + 1)" by simp
  show ?thesis
    unfolding calculate_investment_projection_def
      projection_with_success [OF look years num_simulations_pos refl refl refl]
    using len by (simp del: upt_Suc add: table_nth spec_row_fields)
qed

theorem result_table_shape_witness:
  "(0::int) < 10 \<and> (4::int) \<in> {1..8} \<and>
   (\<exists>rows. fst (calculate_investment_projection mean_sampler 1000000 5000 4 10 ()) = Inr rows \<and>
      length rows = 121 \<and> Month (rows ! 120) = 120 \<and> Year (rows ! 120) = 10 \<and>
      Month (rows ! 6) = 6 \<and> Year (rows ! 6) = 1 / 2)"
proof -
  from result_table_shape [of 10 4 mean_sampler 1000000 5000 "()"]
  obtain rows where r: "fst (calculate_investment_projection mean_sampler 1000000 5000 4 10 ()) = Inr rows"
    "length rows = nat (10 * 12 + 1)"
    "\<forall>k. k \<le> nat (10 * 12) \<longrightarrow> Month (rows ! k) = k \<and> Year (rows ! k) = real k / 12"
    by auto
  from r(3) [rule_format, of 120]
  have "Month (rows ! 120) = 120 \<and> Year (rows ! 120) = 10"
    by simp
  moreover from r(3) [rule_format, of 6]
  have "Month (rows ! 6) = 6 \<and> Year (rows ! 6) = 1 / 2"
    by simp
  ultimately show ?thesis using r(1,2) by simp
qed

text \<open>
  C7. For every month \<open>m\<close> of the table, the lower bound, the median and the upper bound
  of row \<open>m\<close> are the 10th, 50th and 90th percentile of the \<open>n\<close> values
  \<open>value[m]\<close> of the ensemble (column \<open>m\<close> of the array the loops filled), where the
  percentile is the one of the specification: rank \<open>p / 100 * (n - 1)\<close>, interpolated
  linearly between the adjacent order statistics.
\<close>

theorem percentile_bands:
  assumes look: "risk_lookup risk_appetite = Inr params" and years: "0 \<le> years" and n: "0 < n"
    and sim: "simulate n normal (monthly_return (mean_return params))
       (monthly_volatility (volatility params)) ia mc (nat (years * 12)) g = (sims, cums, g')"
    and m: "m \<le> nat (years * 12)"
  shows "length (column sims m) = n \<and>
    (\<forall>i. i < n \<longrightarrow> column sims m ! i = sims ! i ! m) \<and>
    (\<exists>rows. fst (projection_with n normal ia mc risk_appetite years g) = Inr rows \<and>
       Lower_Bound_10 (rows ! m) = spec_percentile (column sims m) 10 \<and>
       Median_Projection (rows ! m) = spec_percentile (column sims m) 50 \<and>
       Upper_Bound_90 (rows ! m) = spec_percentile (column sims m) 90)"
proof -
  from sim have sims: "sims = spec_ensemble n normal (monthly_return (mean_return params))
       (monthly_volatility (volatility params)) ia mc (nat (years * 12)) g"
    by (simp add: simulate_ensemble)
  have len: "length (column sims m) = n"
    by (simp add: sims column_length ensemble_length)
  then have ne: "column sims m \<noteq> []" using n by auto
  have nth: "\<forall>i. i < n \<longrightarrow> column sims m ! i = sims ! i ! m"
    by (simp add: column_def sims ensemble_length)
  have "\<exists>rows. fst (projection_with n normal ia mc risk_appetite years g) = Inr rows \<and>
       Lower_Bound_10 (rows ! m) = spec_percentile (column sims m) 10 \<and>
       Median_Projection (rows ! m) = spec_percentile (column sims m) 50 \<and>
       Upper_Bound_90 (rows ! m) = spec_percentile (column sims m) 90"
    unfolding projection_with_success [OF look years n refl refl refl]
    using m
    by (simp del: upt_Suc add: table_nth spec_row_fields sims [symmetric]
        percentile_spec [OF ne])
  with len nth show ?thesis by blast
qed

theorem percentile_bands_witness:
  "risk_lookup 4 = Inr \<lparr>mean_return = 7 / 100, volatility = 11 / 100\<rparr> \<and>
   (0::int) \<le> 1 \<and> (0::nat) < 3 \<and> (5::nat) \<le> nat (1 * 12) \<and>
   length (column (fst (simulate 3 scripted_sampler (monthly_return (7 / 100))
       (monthly_volatility (11 / 100)) 1000 50 12 [1, - 1, 0, 2])) 5) = 3 \<and>
   (\<exists>rows. fst (projection_with 3 scripted_sampler 1000 50 4 1 [1, - 1, 0, 2]) = Inr rows \<and>
      Lower_Bound_10 (rows ! 5) =
        spec_percentile (column (fst (simulate 3 scripted_sampler (monthly_return (7 / 100))
          (monthly_volatility (11 / 100)) 1000 50 12 [1, - 1, 0, 2])) 5) 10 \<and>
      Median_Projection (rows ! 5) =
        spec_percentile (column (fst (simulate 3 scripted_sampler (monthly_return (7 / 100))
          (monthly_volatility (11 / 100)) 1000 50 12 [1, - 1, 0, 2])) 5) 50 \<and>
      Upper_Bound_90 (rows ! 5) =
        spec_percentile (column (fst (simulate 3 scripted_sampler (monthly_return (7 / 100))
          (monthly_volatility (11 / 100)) 1000 50 12 [1, - 1, 0, 2])) 5) 90)"
proof -
  have look: "risk_lookup 4 = Inr \<lparr>mean_return = 7 / 100, volatility = 11 / 100\<rparr>"
    by (simp add: risk_lookup_cases)
  have h: "(0::int) \<le> 1" "(0::nat) < 3" by simp_all
  have m: "(5::nat) \<le> nat (1 * 12)" by simp
  obtain sims cums g' where sim:
    "simulate 3 scripted_sampler
       (monthly_return (mean_return \<lparr>mean_return = 7 / 100, volatility = 11 / 100\<rparr>))
       (monthly_volatility (volatility \<lparr>mean_return = 7 / 100, volatility = 11 / 100\<rparr>))
       1000 50 (nat (1 * 12)) [1, - 1, 0, 2] = (sims, cums, g')"
    by (metis prod_cases3)
  then have sims: "fst (simulate 3 scripted_sampler (monthly_return (7 / 100))
       (monthly_volatility (11 / 100)) 1000 50 12 [1, - 1, 0, 2]) = sims"
    by simp
  from percentile_bands [OF look h sim m] look h m show ?thesis
    unfolding sims by blast
qed

text \<open>
  C8. For every ensemble of \<open>n \<ge> 2\<close> trajectories, whatever the sampler and the
  generator, the call returns a table in which every row has
  \<open>Lower_Bound_10 \<le> Median_Projection \<le> Upper_Bound_90\<close>.
\<close>

theorem percentile_bands_ordered:
  assumes "2 \<le> n" and "risk_appetite \<in> {1..8}" and "0 \<le> years"
  shows "\<exists>rows. fst (projection_with n normal ia mc risk_appetite years g) = Inr rows \<and>
    length rows = nat (years * 12) + 1 \<and>
    (\<forall>m. m < length rows \<longrightarrow>
       Lower_Bound_10 (rows ! m) \<le> Median_Projection (rows ! m) \<and>
       Median_Projection (rows ! m) \<le> Upper_Bound_90 (rows ! m))"
proof -
  from assms(2) obtain params where look: "risk_lookup risk_appetite = Inr params"
    by (rule risk_lookup_inside)
  from assms(1) have n: "0 < n" by simp
  define sims where "sims = spec_ensemble n normal (monthly_return (mean_return params))
       (monthly_volatility (volatility params)) ia mc (nat (years * 12)) g"
  have ne: "column sims m \<noteq> []" for m
    using n by (simp add: column_def sims_def spec_ensemble_def)
  have "percentile (column sims m) 10 \<le> percentile (column sims m) 50" for m
    by (rule percentile_mono [OF ne]) simp_all
  moreover have "percentile (column sims m) 50 \<le> percentile (column sims m) 90" for m
    by (rule percentile_mono [OF ne]) simp_all
  ultimately show ?thesis
    unfolding projection_with_success [OF look assms(3) n refl refl refl] sims_def [symmetric]
    by (simp del: upt_Suc add: table_nth spec_row_fields less_Suc_eq_le)
qed

theorem percentile_bands_ordered_witness:
  "2 \<le> num_simulations \<and> (4::int) \<in> {1..8} \<and> (0::int) \<le> 10 \<and>
   (\<exists>rows. fst (calculate_investment_projection scripted_sampler 1000000 5000 4 10 [1, - 1, 0, 2]) = Inr rows \<and>
      length rows = 121 \<and>
      Lower_Bound_10 (rows ! 60) \<le> Median_Projection (rows ! 60) \<and>
      Median_Projection (rows ! 60) \<le> Upper_Bound_90 (rows ! 60))"
proof -
  have h: "2 \<le> num_simulations" "(4::int) \<in> {1..8}" "(0::int) \<le> 10"
    by (simp_all add: num_simulations_def)
  from percentile_bands_ordered [OF h, of scripted_sampler 1000000 5000 "[1, - 1, 0, 2]"]
  obtain rows where r:
    "fst (projection_with num_simulations scripted_sampler 1000000 5000 4 10 [1, - 1, 0, 2]) = Inr rows"
    "length rows = nat (10 * 12) + 1"
    "\<forall>m. m < length rows \<longrightarrow>
       Lower_Bound_10 (rows ! m) \<le> Median_Projection (rows ! m) \<and>
       Median_Projection (rows ! m) \<le> Upper_Bound_90 (rows ! m)"
    by blast
  from r(2) have "length rows = 121" by simp
  moreover from this r(3) [rule_format, of 60]
  have "Lower_Bound_10 (rows ! 60) \<le> Median_Projection (rows ! 60) \<and>
      Median_Projection (rows ! 60) \<le> Upper_Bound_90 (rows ! 60)"
    by simp
  ultimately show ?thesis
    using h r(1) unfolding calculate_investment_projection_def by blast
qed

text \<open>
  C9. The contributions are the same in every trajectory: for every trajectory \<open>i\<close> and
  month \<open>m\<close>, \<open>cumulative[i][m] = initial_amount + m * monthly_contribution\<close>, and row
  \<open>i\<close> of the array equals row 0, which is the one the table reads (line 54). So the
  column \<open>Cumulative_Investment\<close> of the table is \<open>initial_amount + m *
  monthly_contribution\<close>, and with a monthly contribution of 0 it is \<open>initial_amount\<close> at
  every month.
\<close>

theorem cumulative_contributions:
  assumes "risk_appetite \<in> {1..8}" and "0 \<le> years" and "0 < n"
    and "simulate n normal mr mv ia mc (nat (years * 12)) g = (sims, cums, g')"
  shows "(\<forall>i m. i < n \<and> m \<le> nat (years * 12) \<longrightarrow>
            cums ! i ! m = ia + real m * mc \<and> cums ! i = cums ! 0) \<and>
    (\<exists>rows. fst (projection_with n normal ia mc risk_appetite years g) = Inr rows \<and>
       (\<forall>m. m \<le> nat (years * 12) \<longrightarrow>
          Cumulative_Investment (rows ! m) = ia + real m * mc \<and>
          Cumulative_Investment (rows ! m) = cums ! 0 ! m \<and>
          (mc = 0 \<longrightarrow> Cumulative_Investment (rows ! m) = ia)))"
proof -
  from assms(1) obtain params where look: "risk_lookup risk_appetite = Inr params"
    by (rule risk_lookup_inside)
  from assms(4) have cums: "cums = replicate n (spec_contributions ia mc (nat (years * 12)))"
    by (simp add: simulate_ensemble)
  have row: "cums ! i = spec_contributions ia mc (nat (years * 12))" if "i < n" for i
    using that by (simp add: cums)
  have first: "\<forall>i m. i < n \<and> m \<le> nat (years * 12) \<longrightarrow>
            cums ! i ! m = ia + real m * mc \<and> cums ! i = cums ! 0"
    using assms(3) by (simp add: row spec_contributions_nth)
  have second: "\<exists>rows. fst (projection_with n normal ia mc risk_appetite years g) = Inr rows \<and>
       (\<forall>m. m \<le> nat (years * 12) \<longrightarrow>
          Cumulative_Investment (rows ! m) = ia + real m * mc \<and>
          Cumulative_Investment (rows ! m) = cums ! 0 ! m \<and>
          (mc = 0 \<longrightarrow> Cumulative_Investment (rows ! m) = ia))"
    unfolding projection_with_success [OF look assms(2,3) refl refl refl]
    using assms(3)
    by (simp del: upt_Suc add: table_nth spec_row_fields row spec_contributions_nth)
  from first second show ?thesis by (rule conjI)
qed

theorem cumulative_contributions_witness:
  "(4::int) \<in> {1..8} \<and> (0::int) \<le> 1 \<and> (0::nat) < 2 \<and>
   simulate 2 scripted_sampler (1 / 100) (1 / 10) 1000 50 (nat (1 * 12)) [1, - 1, 0, 2] =
     (fst (simulate 2 scripted_sampler (1 / 100) (1 / 10) 1000 50 (nat (1 * 12)) [1, - 1, 0, 2]),
      replicate 2 [1000, 1050, 1100, 1150, 1200, 1250, 1300, 1350, 1400, 1450, 1500, 1550, 1600],
      []) \<and>
   replicate 2 [1000, 1050, 1100, 1150, 1200, 1250, 1300, 1350, 1400, 1450, 1500, 1550, 1600 :: real]
     ! 1 ! 12 = 1000 + real 12 * 50 \<and>
   (\<exists>rows. fst (projection_with 2 scripted_sampler 1000 50 4 1 [1, - 1, 0, 2]) = Inr rows \<and>
      Cumulative_Investment (rows ! 12) = 1600)"
proof -
  have sim: "simulate 2 scripted_sampler (1 / 100) (1 / 10) 1000 50 (nat (1 * 12)) [1, - 1, 0, 2] =
     (fst (simulate 2 scripted_sampler (1 / 100) (1 / 10) 1000 50 (nat (1 * 12)) [1, - 1, 0, 2]),
      replicate 2 [1000, 1050, 1100, 1150, 1200, 1250, 1300, 1350, 1400, 1450, 1500, 1550, 1600],
      [])"
    by code_simp
  have "(4::int) \<in> {1..8}" and "(0::int) \<le> 1" and "(0::nat) < 2" by simp_all
  from cumulative_contributions [OF this sim]
  have "(\<exists>rows. fst (projection_with 2 scripted_sampler 1000 50 4 1 [1, - 1, 0, 2]) = Inr rows \<and>
      Cumulative_Investment (rows ! 12) = 1600)"
    by fastforce
  with sim show ?thesis by simp
qed

text \<open>
  C10. For an initial amount of 1,000,000, a monthly contribution of 5,000, risk level 4
  and a horizon of 10 years, whatever the sampler and the generator: the table has 121
  rows, row 0 is month 0, year 0, with the median and both bounds equal to 1,000,000 and
  contributions of 1,000,000, and row 120 has contributions of 1,600,000.
\<close>

theorem example_projection:
  "\<exists>rows. fst (calculate_investment_projection normal 1000000 5000 4 10 g) = Inr rows \<and>
     length rows = 121 \<and>
     rows ! 0 = \<lparr>Month = 0, Year = 0, Median_Projection = 1000000, Lower_Bound_10 = 1000000,
                 Upper_Bound_90 = 1000000, Cumulative_Investment = 1000000\<rparr> \<and>
     Cumulative_Investment (rows ! 120) = 1600000"
proof -
  obtain params where look: "risk_lookup 4 = Inr params"
    by (rule risk_lookup_inside [of 4]) simp_all
  have years: "(0::int) \<le> 10" by simp
  have m0: "(0::nat) \<le> 120" and m120: "(120::nat) \<le> 120" by simp_all
  have months: "nat (10 * 12) = 120" by simp
  show ?thesis
    unfolding calculate_investment_projection_def
      projection_with_success [OF look years num_simulations_pos refl refl refl] months
    by (simp del: upt_Suc add: table_nth [OF m0] table_nth [OF m120]
        spec_row_month0 [OF num_simulations_pos] spec_row_fields)
qed

theorem example_projection_witness:
  "\<exists>rows. fst (calculate_investment_projection mean_sampler 1000000 5000 4 10 ()) = Inr rows \<and>
     length rows = 121 \<and>
     rows ! 0 = \<lparr>Month = 0, Year = 0, Median_Projection = 1000000, Lower_Bound_10 = 1000000,
                 Upper_Bound_90 = 1000000, Cumulative_Investment = 1000000\<rparr> \<and>
     Cumulative_Investment (rows ! 120) = 1600000"
  by (rule example_projection)

end
